theory Spec2Isabelle
  imports Main "HOL-Library.Sublist" "HOL-Library.Char_ord" "HOL-Library.List_Lexorder"
begin

section \<open>Python values and objects\<close>

text \<open>
  The script \<open>api.py\<close> builds plain Python objects and prints them through
  \<open>o.__dict__\<close>. An object is therefore modelled as Python has it: its class and
  its instance dictionary, an association list in insertion order. Attributes that a
  class body gives a value (\<open>kind: str = 'file'\<close>) live in the class, not in the
  instance dictionary.
\<close>

datatype pyclass = Node | File | Group | Struct | Function | Param

datatype pyval =
    PyNone
  | PyBool bool
  | PyInt int
  | PyStr string
  | PySet "string set"
  | PyList "pyval list"
  | PyObj pyclass "(string \<times> pyval) list"

type_synonym pydict = "(string \<times> pyval) list"

type_synonym object = "pyclass \<times> pydict"

definition obj :: "object \<Rightarrow> pyval" where
  "obj self = PyObj (fst self) (snd self)"

text \<open>\<open>d[k] = v\<close>: an existing key keeps its position, a new key goes last.\<close>

fun dict_set :: "string \<Rightarrow> pyval \<Rightarrow> pydict \<Rightarrow> pydict" where
  "dict_set k v [] = [(k, v)]"
| "dict_set k v (kv # d) = (if fst kv = k then (k, v) # d else kv # dict_set k v d)"

text \<open>The class bodies: only annotations that carry a value define a class attribute.\<close>

fun class_dict :: "pyclass \<Rightarrow> pydict" where
  "class_dict Node =
     [(''kind'', PyStr ''''), (''name'', PyStr ''''), (''file'', PyStr ''''),
      (''line'', PyStr ''''), (''parent_ids'', PyNone), (''children_ids'', PyNone),
      (''desc'', PyStr '''')]"
| "class_dict File = [(''kind'', PyStr ''file'')]"
| "class_dict Group = [(''kind'', PyStr ''group''), (''title'', PyStr '''')]"
| "class_dict Struct = []"
| "class_dict Function = [(''kind'', PyStr ''func''), (''return_type'', PyStr ''void'')]"
| "class_dict Param = []"

fun base :: "pyclass \<Rightarrow> pyclass option" where
  "base Node = None"
| "base Param = None"
| "base c = Some Node"

definition class_attr :: "pyclass \<Rightarrow> string \<Rightarrow> pyval option" where
  "class_attr c k =
     (case map_of (class_dict c) k of
        Some v \<Rightarrow> Some v
      | None \<Rightarrow> (case base c of Some b \<Rightarrow> map_of (class_dict b) k | None \<Rightarrow> None))"

definition hasattr :: "object \<Rightarrow> string \<Rightarrow> bool" where
  "hasattr self k = (map_of (snd self) k \<noteq> None \<or> class_attr (fst self) k \<noteq> None)"

text \<open>
  \<open>self.k\<close>: the instance dictionary first, then the classes. Reading an attribute
  that neither defines raises AttributeError in Python; no function of the script reads
  one, and the model answers \<open>PyNone\<close> there (\<open>hasattr\<close> tells the two apart).
\<close>

definition getattr :: "object \<Rightarrow> string \<Rightarrow> pyval" where
  "getattr self k =
     (case map_of (snd self) k of
        Some v \<Rightarrow> v
      | None \<Rightarrow> (case class_attr (fst self) k of Some v \<Rightarrow> v | None \<Rightarrow> PyNone))"

definition setattr :: "object \<Rightarrow> string \<Rightarrow> pyval \<Rightarrow> object" where
  "setattr self k v = (fst self, dict_set k v (snd self))"

text \<open>Python truthiness, as \<open>if not x\<close> reads it.\<close>

fun truthy :: "pyval \<Rightarrow> bool" where
  "truthy PyNone = False"
| "truthy (PyBool b) = b"
| "truthy (PyInt i) = (i \<noteq> 0)"
| "truthy (PyStr s) = (s \<noteq> [])"
| "truthy (PySet S) = (S \<noteq> {})"
| "truthy (PyList xs) = (xs \<noteq> [])"
| "truthy (PyObj c d) = True"

text \<open>
  Readers of a value at the type the script expects there. The other cases are type
  errors in Python and do not arise: \<open>parent_ids\<close> and \<open>children_ids\<close> only ever
  hold \<open>None\<close> or a set, \<open>params\<close> a list, \<open>id\<close> a string.
\<close>

fun set_of :: "pyval \<Rightarrow> string set" where
  "set_of (PySet S) = S"
| "set_of v = {}"

fun list_of :: "pyval \<Rightarrow> pyval list" where
  "list_of (PyList xs) = xs"
| "list_of v = []"

fun str_of :: "pyval \<Rightarrow> string" where
  "str_of (PyStr s) = s"
| "str_of v = []"

section \<open>The node classes\<close>

text \<open>\<open>Node.__init__\<close>, inherited by \<open>File\<close> and \<open>Group\<close>.\<close>

definition Node_init :: "pyclass \<Rightarrow> string \<Rightarrow> string \<Rightarrow> object" where
  "Node_init c ident name =
     setattr (setattr (c, []) ''id'' (PyStr ident)) ''name'' (PyStr name)"

definition add_parent :: "object \<Rightarrow> string \<Rightarrow> object" where
  "add_parent self parent =
     (let self1 = (if \<not> truthy (getattr self ''parent_ids'')
                   then setattr self ''parent_ids'' (PySet {}) else self)
      in setattr self1 ''parent_ids''
           (PySet (insert parent (set_of (getattr self1 ''parent_ids'')))))"

definition add_child :: "object \<Rightarrow> string \<Rightarrow> object" where
  "add_child self child =
     (let self1 = (if \<not> truthy (getattr self ''children_ids'')
                   then setattr self ''children_ids'' (PySet {}) else self)
      in setattr self1 ''children_ids''
           (PySet (insert child (set_of (getattr self1 ''children_ids'')))))"

definition Struct_init :: "string \<Rightarrow> string \<Rightarrow> bool \<Rightarrow> object" where
  "Struct_init ident name is_union =
     (let self = Node_init Struct ident name;
          self = setattr self ''is_union'' (PyBool is_union)
      in setattr self ''kind'' (PyStr (if is_union then ''union'' else ''struct'')))"

definition Function_init :: "string \<Rightarrow> string \<Rightarrow> object" where
  "Function_init ident name = setattr (Node_init Function ident name) ''params'' (PyList [])"

text \<open>
  \<open>Function.add_param\<close> appends a fresh \<open>Param\<close> whose \<open>index\<close> is the length of
  the list so far and returns it. The caller then assigns to the returned object, which
  is the one in the list: the model returns its position in \<open>params\<close> as the
  reference, and \<open>param_setattr\<close> assigns through it.
\<close>

definition add_param :: "object \<Rightarrow> object \<times> nat" where
  "add_param self =
     (let params = list_of (getattr self ''params'');
          param = setattr (Param, []) ''index'' (PyInt (int (length params)))
      in (setattr self ''params'' (PyList (params @ [obj param])), length params))"

fun obj_setattr :: "pyval \<Rightarrow> string \<Rightarrow> pyval \<Rightarrow> pyval" where
  "obj_setattr (PyObj c d) k v = PyObj c (dict_set k v d)"
| "obj_setattr x k v = x"

definition param_setattr :: "object \<Rightarrow> nat \<Rightarrow> string \<Rightarrow> pyval \<Rightarrow> object" where
  "param_setattr func i k v =
     (let params = list_of (getattr func ''params'')
      in setattr func ''params'' (PyList (params[i := obj_setattr (params ! i) k v])))"

section \<open>Records of the XML decoder\<close>

text \<open>
  The decoder (\<open>doxmlparser\<close>) is not part of the script; only the shapes of the
  records it hands back are modelled. A mixed-content fragment carries its category, and
  its value is a string for a text fragment and an element object for a complex one.
\<close>

record refTextType =
  refid :: string
  valueOf :: string

datatype MixedContainer =
    CategoryNone
  | CategoryText string
  | CategorySimple string string
  | CategoryComplex string refTextType

record linkedTextType =
  content :: "MixedContainer list"

section \<open>Record normalizer: types\<close>

text \<open>The body of the loop of \<open>parse_type\<close>: one fragment added to \<open>result\<close>.\<close>

fun parse_type_part :: "string \<Rightarrow> MixedContainer \<Rightarrow> string" where
  "parse_type_part result (CategoryText v) = result @ v"
| "parse_type_part result (CategoryComplex name v) =
     (if name = ''ref'' then result @ valueOf v else result)"
| "parse_type_part result part = result"

definition parse_type :: "linkedTextType option \<Rightarrow> string" where
  "parse_type type =
     (case type of
        None \<Rightarrow> ''void''
      | Some t \<Rightarrow> foldl parse_type_part [] (content t))"

text \<open>
  The specification's wording of flattening: the fragments that are plain text or
  references, each replaced by its text, joined in order.
\<close>

fun is_plain :: "MixedContainer \<Rightarrow> bool" where
  "is_plain (CategoryText v) = True"
| "is_plain part = False"

fun is_reference :: "MixedContainer \<Rightarrow> bool" where
  "is_reference (CategoryComplex name v) = (name = ''ref'')"
| "is_reference part = False"

fun fragment_text :: "MixedContainer \<Rightarrow> string" where
  "fragment_text (CategoryText v) = v"
| "fragment_text (CategoryComplex name v) = valueOf v"
| "fragment_text part = []"

definition flatten_spec :: "MixedContainer list \<Rightarrow> string" where
  "flatten_spec parts =
     concat (map fragment_text (filter (\<lambda>p. is_plain p \<or> is_reference p) parts))"

section \<open>Record normalizer: locations\<close>

text \<open>
  The script asks \<open>hasattr(loc, 'bodyfile')\<close> before it reads an attribute of a
  location record, so an attribute can be missing, hold \<open>None\<close>, or hold a value.
  The attributes \<open>file\<close> and \<open>line\<close> are the fields \<open>loc_file\<close> and \<open>loc_line\<close>.
\<close>

datatype 'a attribute = NoAttr | Attr "'a option"

record locationType =
  bodyfile :: "string attribute"
  bodystart :: "int attribute"
  loc_file :: "string attribute"
  loc_line :: "int attribute"
  declfile :: "string attribute"
  declline :: "int attribute"

definition HEADER_FILE_EXTENSION :: string where
  "HEADER_FILE_EXTENSION = ''.h''"

text \<open>\<open>s.endswith(suffix)\<close> of Python strings.\<close>

definition endswith :: "string \<Rightarrow> string \<Rightarrow> bool" where
  "endswith s suf = (length suf \<le> length s \<and> drop (length s - length suf) s = suf)"

text \<open>
  The test of each branch of \<open>parse_location\<close>:
  \<open>hasattr(loc, a) and loc.a and loc.a.endswith(HEADER_FILE_EXTENSION)\<close>.
\<close>

fun header_file :: "string attribute \<Rightarrow> bool" where
  "header_file NoAttr = False"
| "header_file (Attr None) = False"
| "header_file (Attr (Some f)) = (f \<noteq> [] \<and> endswith f HEADER_FILE_EXTENSION)"

text \<open>The values assigned: \<open>loc.a\<close>, and \<open>loc.b if hasattr(loc, b) else None\<close>.\<close>

fun file_value :: "string attribute \<Rightarrow> pyval" where
  "file_value (Attr (Some f)) = PyStr f"
| "file_value a = PyNone"

fun line_value :: "int attribute \<Rightarrow> pyval" where
  "line_value (Attr (Some n)) = PyInt n"
| "line_value a = PyNone"

text \<open>
  \<open>parse_location(node, compound)\<close> reads only \<open>compound.location\<close>, which is the
  second argument here: \<open>None\<close> when the record has no location.
\<close>

definition parse_location :: "object \<Rightarrow> locationType option \<Rightarrow> object" where
  "parse_location node loc =
     (case loc of
        None \<Rightarrow> setattr (setattr node ''file'' (PyStr [])) ''line'' PyNone
      | Some l \<Rightarrow>
          if header_file (bodyfile l) then
            setattr (setattr node ''file'' (file_value (bodyfile l)))
              ''line'' (line_value (bodystart l))
          else if header_file (loc_file l) then
            setattr (setattr node ''file'' (file_value (loc_file l)))
              ''line'' (line_value (loc_line l))
          else if header_file (declfile l) then
            setattr (setattr node ''file'' (file_value (declfile l)))
              ''line'' (line_value (declline l))
          else setattr (setattr node ''file'' (PyStr [])) ''line'' PyNone)"

text \<open>
  The specification's wording of location resolution: the candidate pairs in priority
  order, the first one whose file name ends with the header suffix, and the empty
  location when there is none.
\<close>

definition candidates :: "locationType \<Rightarrow> (string attribute \<times> int attribute) list" where
  "candidates l = [(bodyfile l, bodystart l), (loc_file l, loc_line l), (declfile l, declline l)]"

fun qualifies :: "string attribute \<times> int attribute \<Rightarrow> bool" where
  "qualifies (Attr (Some f), ln) = suffix ''.h'' f"
| "qualifies c = False"

definition resolve_spec :: "locationType option \<Rightarrow> pyval \<times> pyval" where
  "resolve_spec loc =
     (case loc of
        None \<Rightarrow> (PyStr [], PyNone)
      | Some l \<Rightarrow>
          (case find qualifies (candidates l) of
             None \<Rightarrow> (PyStr [], PyNone)
           | Some c \<Rightarrow> (file_value (fst c), line_value (snd c))))"

definition parse_description :: string where
  "parse_description = []"

section \<open>Compound parser\<close>

record paramType =
  declname :: "string option"
  param_type :: "linkedTextType option"

record memberdefType =
  memberdef_kind :: string
  memberdef_id :: string
  memberdef_name :: string
  memberdef_location :: "locationType option"
  memberdef_param :: "paramType list"
  memberdef_type :: "linkedTextType option"

record refType =
  ref_refid :: string

record MemberType =
  member_refid :: string

record sectiondefType =
  sectiondef_member :: "MemberType list"
  sectiondef_memberdef :: "memberdefType list option"

record compounddefType =
  compound_kind :: string
  compound_id :: string
  compoundname :: string
  compound_title :: "string option"
  compound_location :: "locationType option"
  compound_innerclass :: "refType list option"
  compound_innergroup :: "refType list option"
  compound_sectiondef :: "sectiondefType list option"

record CompoundType =
  index_refid :: string
  index_kind :: string

text \<open>
  Modelled from the spec: the members of the decoder's kind enumerations
  (\<open>dox_index.CompoundKind\<close>, \<open>dox_compound.DoxMemberKind\<close>) are not in the script.
  They are string-valued, and a record's \<open>kind\<close> is the string of the XML attribute,
  so a kind is a string and comparing it with a member compares strings.
\<close>

definition FILE :: string where "FILE = ''file''"
definition GROUP :: string where "GROUP = ''group''"
definition STRUCT :: string where "STRUCT = ''struct''"
definition CLASS :: string where "CLASS = ''class''"
definition UNION :: string where "UNION = ''union''"
definition PAGE :: string where "PAGE = ''page''"
definition DIR :: string where "DIR = ''dir''"
definition CATEGORY :: string where "CATEGORY = ''category''"
definition CONCEPT :: string where "CONCEPT = ''concept''"
definition EXAMPLE :: string where "EXAMPLE = ''example''"
definition FUNCTION :: string where "FUNCTION = ''function''"

text \<open>\<open>x or []\<close> and a string-or-None as a Python value.\<close>

fun or_empty :: "'a list option \<Rightarrow> 'a list" where
  "or_empty None = []"
| "or_empty (Some xs) = xs"

fun str_or_none :: "string option \<Rightarrow> pyval" where
  "str_or_none None = PyNone"
| "str_or_none (Some s) = PyStr s"

text \<open>The body of the loop of \<open>parse_function\<close> over \<open>memberdef.param\<close>.\<close>

definition parse_function_param :: "object \<Rightarrow> paramType \<Rightarrow> object" where
  "parse_function_param func dox_param =
     (let (func, param) = add_param func;
          func = param_setattr func param ''desc'' (PyStr parse_description);
          func = param_setattr func param ''name'' (str_or_none (declname dox_param));
          func = param_setattr func param ''type'' (PyStr (parse_type (param_type dox_param)))
      in func)"

definition parse_function :: "memberdefType \<Rightarrow> object" where
  "parse_function memberdef =
     (let func = Function_init (memberdef_id memberdef) (memberdef_name memberdef);
          func = parse_location func (memberdef_location memberdef);
          func = setattr func ''desc'' (PyStr parse_description);
          func = foldl parse_function_param func (memberdef_param memberdef);
          func = setattr func ''return_type'' (PyStr (parse_type (memberdef_type memberdef)))
      in func)"

text \<open>
  The specification's wording of a parameter record: the \<open>Param\<close> of the declared
  parameter \<open>p\<close> at position \<open>i\<close>, with its fields in the order the script assigns
  them.
\<close>

definition param_record :: "nat \<Rightarrow> paramType \<Rightarrow> pyval" where
  "param_record i p =
     PyObj Param
       [(''index'', PyInt (int i)), (''desc'', PyStr []),
        (''name'', str_or_none (declname p)),
        (''type'', PyStr (parse_type (param_type p)))]"

definition parse_memberdef :: "memberdefType \<Rightarrow> object list" where
  "parse_memberdef memberdef =
     (if memberdef_kind memberdef = FUNCTION then [parse_function memberdef] else [])"

text \<open>
  \<open>parse_file_or_group\<close> starts its result list with \<open>node\<close> and goes on changing
  that object. The model carries the node and the nodes appended after it apart, and
  puts the node first at the end.
\<close>

definition parse_sectiondef_memberdef ::
  "object \<times> object list \<Rightarrow> memberdefType \<Rightarrow> object \<times> object list" where
  "parse_sectiondef_memberdef st md =
     (let children = parse_memberdef md;
          node = foldl (\<lambda>n child. add_child n (str_of (getattr child ''id''))) (fst st) children
      in (node, snd st @ children))"

definition parse_sectiondef ::
  "object \<times> object list \<Rightarrow> sectiondefType \<Rightarrow> object \<times> object list" where
  "parse_sectiondef st sd =
     (let node = foldl (\<lambda>n m. add_child n (member_refid m)) (fst st) (sectiondef_member sd)
      in foldl parse_sectiondef_memberdef (node, snd st) (or_empty (sectiondef_memberdef sd)))"

definition parse_file_or_group :: "object \<Rightarrow> compounddefType \<Rightarrow> object list" where
  "parse_file_or_group node compound =
     (let node = parse_location node (compound_location compound);
          node = setattr node ''desc'' (PyStr parse_description);
          node = foldl (\<lambda>n inner_ref. add_child n (ref_refid inner_ref)) node
                   (or_empty (compound_innerclass compound) @ or_empty (compound_innergroup compound));
          st = foldl parse_sectiondef (node, []) (or_empty (compound_sectiondef compound))
      in fst st # snd st)"

definition parse_file :: "compounddefType \<Rightarrow> object list" where
  "parse_file compound =
     parse_file_or_group (Node_init File (compound_id compound) (compoundname compound)) compound"

definition parse_group :: "compounddefType \<Rightarrow> object list" where
  "parse_group compound =
     (let group = Node_init Group (compound_id compound) (compoundname compound);
          group = setattr group ''title'' (str_or_none (compound_title compound))
      in parse_file_or_group group compound)"

text \<open>\<open>parse_struct\<close> returns the node itself, not a list.\<close>

definition parse_struct :: "compounddefType \<Rightarrow> bool \<Rightarrow> object" where
  "parse_struct compound is_union =
     (let struct = Struct_init (compound_id compound) (compoundname compound) is_union;
          struct = parse_location struct (compound_location compound)
      in setattr struct ''desc'' (PyStr parse_description))"

text \<open>
  \<open>warning\<close> prints its arguments after a coloured prefix to the error stream, which
  is modelled as the list of the lines written.
\<close>

definition ESC :: char where
  "ESC = CHR 0x1B"

definition warning :: "string \<Rightarrow> string" where
  "warning msg = ESC # ''[33mwarning:'' @ ESC # ''[0m'' @ '' '' @ msg"

text \<open>
  The body of the loop of \<open>process_compound\<close>, on the result list and the lines
  written so far. \<open>result.append(x)\<close> adds \<open>x\<close> as one element, whatever \<open>x\<close> is.
\<close>

definition process_compound_step ::
  "pyval list \<times> string list \<Rightarrow> compounddefType \<Rightarrow> pyval list \<times> string list" where
  "process_compound_step st compound =
     (if compound_kind compound = FILE then
        (fst st @ [PyList (map obj (parse_file compound))], snd st)
      else if compound_kind compound = GROUP then
        (fst st @ [PyList (map obj (parse_group compound))], snd st)
      else if compound_kind compound \<in> {STRUCT, CLASS, UNION} then
        (fst st @ [obj (parse_struct compound (compound_kind compound = UNION))], snd st)
      else
        (fst st, snd st @ [warning (''Unexpected doxygen compound kind: \"''
                                     @ compound_kind compound @ ''\"'')]))"

text \<open>
  The decoded documents are a parameter: \<open>xml ident\<close> is the list of compound
  definitions of \<open>XML_DIR / (ident + '.xml')\<close>.
\<close>

definition process_compound ::
  "(string \<Rightarrow> compounddefType list) \<Rightarrow> string \<Rightarrow> pyval list \<times> string list" where
  "process_compound xml ident = foldl process_compound_step ([], []) (xml ident)"

section \<open>Parallel dispatcher\<close>

text \<open>
  \<open>executor_map use_process workers func collected chunksize\<close> stands for
  \<open>executor.map\<close> of the pool chosen by \<open>use_process\<close>, created with \<open>workers\<close>
  workers; \<open>cpu_count\<close> is what \<open>os.cpu_count()\<close> returns. Both belong to the Python
  library. A triple of \<open>zip\<close> is a nested pair.
\<close>

definition concurrent_pool_iter ::
  "(bool \<Rightarrow> int \<Rightarrow> ('a \<Rightarrow> 'b) \<Rightarrow> 'a list \<Rightarrow> int \<Rightarrow> 'b list) \<Rightarrow> int option \<Rightarrow>
   ('a \<Rightarrow> 'b) \<Rightarrow> 'a list \<Rightarrow> bool \<Rightarrow> int \<Rightarrow> ('b \<times> 'a \<times> nat) list" where
  "concurrent_pool_iter executor_map cpu_count func iterable use_process threshold =
     (let collected = iterable;
          it = (if int (length collected) \<ge> threshold then
                  (let executor_workers =
                         (case cpu_count of
                            None \<Rightarrow> 1
                          | Some n \<Rightarrow> if n < 1 then 1 else n);
                       chunksize = (int (length collected) + executor_workers - 1)
                                     div executor_workers
                   in executor_map use_process executor_workers func collected chunksize)
                else map func collected)
      in zip it (zip collected [0..<length collected]))"

text \<open>The specification's wording: the direct sequential mapping, item for item.\<close>

definition sequential_mapping :: "('a \<Rightarrow> 'b) \<Rightarrow> 'a list \<Rightarrow> ('b \<times> 'a \<times> nat) list" where
  "sequential_mapping f xs = map (\<lambda>i. (f (xs ! i), xs ! i, i)) [0..<length xs]"

section \<open>Index driver\<close>

record state =
  nodes :: "pyval list"
  stderr :: "string list"

text \<open>The body of the first loop of \<open>parse_all\<close>, on \<open>ids\<close> and the lines written.\<close>

definition parse_all_step ::
  "string list \<times> string list \<Rightarrow> CompoundType \<Rightarrow> string list \<times> string list" where
  "parse_all_step st compound =
     (if index_kind compound \<in> {FILE, GROUP, STRUCT, CLASS, UNION} then
        (fst st @ [index_refid compound], snd st)
      else if index_kind compound \<in> {PAGE, DIR, CATEGORY, CONCEPT, EXAMPLE} then st
      else
        (fst st, snd st @ [warning (''Unknown doxygen compound kind: \"''
                                     @ index_kind compound @ ''\"'')]))"

definition parse_all_ids :: "CompoundType list \<Rightarrow> string list \<times> string list" where
  "parse_all_ids index = foldl parse_all_step ([], []) index"

text \<open>
  \<open>parse_all\<close>: the index loop, the shuffle (the permutation drawn is the parameter
  \<open>shuffle\<close>), the dispatch with the process pool and threshold 20, and
  \<open>nodes.extend(node)\<close> for each triple. The lines that \<open>process_compound\<close> writes
  are appended in dispatch order; with worker processes the order of lines of different
  workers is not determined by the script.
\<close>

definition parse_all ::
  "(bool \<Rightarrow> int \<Rightarrow> (string \<Rightarrow> pyval list \<times> string list) \<Rightarrow> string list \<Rightarrow> int
      \<Rightarrow> (pyval list \<times> string list) list) \<Rightarrow>
   int option \<Rightarrow> (string list \<Rightarrow> string list) \<Rightarrow> (string \<Rightarrow> compounddefType list) \<Rightarrow>
   CompoundType list \<Rightarrow> state \<Rightarrow> state" where
  "parse_all executor_map cpu_count shuffle xml index st =
     (let (ids, warnings) = parse_all_ids index;
          ids = shuffle ids;
          triples = concurrent_pool_iter executor_map cpu_count (process_compound xml) ids True 20
      in foldl (\<lambda>s triple. s\<lparr>nodes := nodes s @ fst (fst triple),
                                stderr := stderr s @ snd (fst triple)\<rparr>)
           (st\<lparr>stderr := stderr st @ warnings\<rparr>) triples)"

section \<open>Output serializer\<close>

datatype json =
    JNull
  | JBool bool
  | JNumber int
  | JString string
  | JArray "json list"
  | JObject "(string \<times> json) list"

text \<open>
  \<open>MyEncoder\<close>: the encoder writes \<open>None\<close>, booleans, integers, strings and lists
  itself and asks \<open>default\<close> for the rest, which turns a set into \<open>list(o)\<close> and any
  other object into \<open>o.__dict__\<close>. The order in which Python iterates over a set is not
  fixed by the script: \<open>iter\<close> stands for it.
\<close>

primrec encode :: "(string set \<Rightarrow> string list) \<Rightarrow> pyval \<Rightarrow> json" where
  "encode iter PyNone = JNull"
| "encode iter (PyBool b) = JBool b"
| "encode iter (PyInt i) = JNumber i"
| "encode iter (PyStr s) = JString s"
| "encode iter (PySet S) = JArray (map JString (iter S))"
| "encode iter (PyList xs) = JArray (map (encode iter) xs)"
| "encode iter (PyObj c d) = JObject (map (map_prod (\<lambda>k. k) (encode iter)) d)"

text \<open>
  The main program: \<open>parse_all\<close> on the empty global collection, then the encoding of
  \<open>nodes\<close>.
\<close>

definition output_document :: "(string set \<Rightarrow> string list) \<Rightarrow> state \<Rightarrow> json" where
  "output_document iter st = encode iter (PyList (nodes st))"

section \<open>Vocabulary of the properties\<close>

text \<open>An element of the global collection that is a single node object.\<close>

fun is_node :: "pyval \<Rightarrow> bool" where
  "is_node (PyObj c d) = (c \<noteq> Param)"
| "is_node v = False"

fun json_keys :: "json \<Rightarrow> string list" where
  "json_keys (JObject kvs) = map fst kvs"
| "json_keys j = []"

text \<open>One iteration order of a set of strings: ascending.\<close>

definition sorted_iter :: "string set \<Rightarrow> string list" where
  "sorted_iter S = sorted_list_of_set S"

text \<open>
  The ids that \<open>parse_file_or_group\<close> attaches to a file or group node, in the order
  of the calls of \<open>add_child\<close>: the inner classes and groups, then for each section
  its member references and the function-kind member definitions; and the member
  definitions that yield a node.
\<close>

definition function_members :: "compounddefType \<Rightarrow> memberdefType list" where
  "function_members compound =
     concat (map (\<lambda>sd. filter (\<lambda>md. memberdef_kind md = FUNCTION)
                            (or_empty (sectiondef_memberdef sd)))
               (or_empty (compound_sectiondef compound)))"

definition child_ids :: "compounddefType \<Rightarrow> string list" where
  "child_ids compound =
     map ref_refid (or_empty (compound_innerclass compound) @ or_empty (compound_innergroup compound))
     @ concat (map (\<lambda>sd. map member_refid (sectiondef_member sd)
                         @ map memberdef_id (filter (\<lambda>md. memberdef_kind md = FUNCTION)
                                                (or_empty (sectiondef_memberdef sd))))
                 (or_empty (compound_sectiondef compound)))"

text \<open>The rendering of the parts of a node object.\<close>

definition location_fields ::
  "(string set \<Rightarrow> string list) \<Rightarrow> locationType option \<Rightarrow> (string \<times> json) list" where
  "location_fields iter loc =
     [(''file'', encode iter (fst (resolve_spec loc))),
      (''line'', encode iter (snd (resolve_spec loc)))]"

definition children_field ::
  "(string set \<Rightarrow> string list) \<Rightarrow> string list \<Rightarrow> (string \<times> json) list" where
  "children_field iter ids =
     (if ids = [] then [] else [(''children_ids'', JArray (map JString (iter (set ids))))])"

definition param_json :: "(string set \<Rightarrow> string list) \<Rightarrow> nat \<Rightarrow> paramType \<Rightarrow> json" where
  "param_json iter i p =
     JObject [(''index'', JNumber (int i)), (''desc'', JString []),
              (''name'', encode iter (str_or_none (declname p))),
              (''type'', JString (parse_type (param_type p)))]"

text \<open>
  A small input: an index that lists one file compound, whose document holds one
  compound definition with no location, no inner references and no sections; and an
  executor whose \<open>map\<close> returns the results in input order.
\<close>

definition example_index :: "CompoundType list" where
  "example_index = [\<lparr>index_refid = ''a_8h'', index_kind = ''file''\<rparr>]"

definition example_xml :: "string \<Rightarrow> compounddefType list" where
  "example_xml ident =
     [\<lparr>compound_kind = ''file'', compound_id = ident, compoundname = ''a.h'',
       compound_title = None, compound_location = None, compound_innerclass = None,
       compound_innergroup = None, compound_sectiondef = None\<rparr>]"

definition ordered_map ::
  "bool \<Rightarrow> int \<Rightarrow> ('a \<Rightarrow> 'b) \<Rightarrow> 'a list \<Rightarrow> int \<Rightarrow> 'b list" where
  "ordered_map use_process workers func collected chunksize = map func collected"

definition example_run :: state where
  "example_run =
     parse_all ordered_map None (\<lambda>ids. ids) example_xml example_index
       \<lparr>nodes = [], stderr = []\<rparr>"

section \<open>Properties of type flattening\<close>

lemma foldl_parse_type_part:
  "foldl parse_type_part acc parts = acc @ flatten_spec parts"
proof (induction parts arbitrary: acc)
  case Nil
  show ?case by (simp add: flatten_spec_def)
next
  case (Cons p ps)
  have step: "parse_type_part acc p = acc @ flatten_spec [p]"
    by (cases p) (simp_all add: flatten_spec_def)
  have split: "flatten_spec (p # ps) = flatten_spec [p] @ flatten_spec ps"
    by (simp add: flatten_spec_def)
  show ?case by (simp add: Cons.IH step split)
qed


text \<open>
  C5. For every type record, \<open>parse_type\<close> returns the in-order concatenation of the
  literal text of each plain fragment and the display value of each reference fragment;
  the sequence \<open>["const ", ref "foo", " *"]\<close> flattens to \<open>"const foo *"\<close>; an absent
  type record gives \<open>"void"\<close>.
\<close>

theorem parse_type_flattens:
  "parse_type (Some t) = flatten_spec (content t)
   \<and> parse_type (Some \<lparr>content = [CategoryText ''const '',
         CategoryComplex ''ref'' \<lparr>refid = r, valueOf = ''foo''\<rparr>,
         CategoryText '' *'']\<rparr>) = ''const foo *''
   \<and> parse_type None = ''void''"
  by (simp add: parse_type_def foldl_parse_type_part flatten_spec_def)



section \<open>Helper facts: dictionaries, attributes, locations, functions\<close>

lemma map_of_dict_set:
  "map_of (dict_set k v d) k' = (if k' = k then Some v else map_of d k')"
  by (induction d) auto

lemma dict_set_twice [simp]:
  "dict_set k v (dict_set k w d) = dict_set k v d"
  by (induction d) auto

lemma getattr_setattr:
  "getattr (setattr self k v) k' = (if k' = k then v else getattr self k')"
  by (simp add: getattr_def setattr_def map_of_dict_set split: option.splits)

lemma setattr_twice:
  "setattr (setattr self k w) k v = setattr self k v"
  by (simp add: setattr_def)

lemma fst_setattr [simp]: "fst (setattr self k v) = fst self"
  by (simp add: setattr_def)

lemma endswith_suffix: "endswith s suf = suffix suf s"
proof
  assume "endswith s suf"
  then have "s = take (length s - length suf) s @ suf"
    by (metis append_take_drop_id endswith_def)
  then show "suffix suf s" by (metis suffixI)
next
  assume "suffix suf s"
  then obtain zs where "s = zs @ suf" by (auto simp add: suffix_def)
  then show "endswith s suf" by (simp add: endswith_def)
qed

lemma header_file_qualifies: "header_file a = qualifies (a, ln)"
  by (cases a rule: header_file.cases)
     (auto simp add: endswith_suffix HEADER_FILE_EXTENSION_def)

lemma parse_location_resolve:
  "parse_location node loc =
     setattr (setattr node ''file'' (fst (resolve_spec loc))) ''line'' (snd (resolve_spec loc))"
proof (cases loc)
  case None
  then show ?thesis by (simp add: parse_location_def resolve_spec_def)
next
  case (Some l)
  have q: "qualifies (bodyfile l, bodystart l) = header_file (bodyfile l)"
      "qualifies (loc_file l, loc_line l) = header_file (loc_file l)"
      "qualifies (declfile l, declline l) = header_file (declfile l)"
    by (simp_all add: header_file_qualifies [symmetric])
  show ?thesis
    by (simp add: Some parse_location_def resolve_spec_def candidates_def q)
qed

lemma add_param_eq:
  "getattr func ''params'' = PyList ps \<Longrightarrow>
   add_param func
     = (setattr func ''params'' (PyList (ps @ [PyObj Param [(''index'', PyInt (int (length ps)))]])),
        length ps)"
  by (simp add: add_param_def Let_def obj_def) (simp add: setattr_def)

lemma param_setattr_last:
  "param_setattr (setattr func ''params'' (PyList (ps @ [PyObj Param d]))) (length ps) k v
     = setattr func ''params'' (PyList (ps @ [PyObj Param (dict_set k v d)]))"
  by (simp add: param_setattr_def Let_def getattr_setattr setattr_twice)

lemma parse_function_param_step:
  assumes "map_of (snd func) ''params'' = Some (PyList ps)"
  shows "parse_function_param func p
           = setattr func ''params'' (PyList (ps @ [param_record (length ps) p]))"
proof -
  have g: "getattr func ''params'' = PyList ps"
    using assms by (simp add: getattr_def)
  show ?thesis
    by (simp add: parse_function_param_def add_param_eq [OF g] param_setattr_last
        param_record_def parse_description_def)
qed

lemma foldl_parse_function_param:
  assumes "map_of (snd func) ''params'' = Some (PyList ps)"
  shows "foldl parse_function_param func qs
           = setattr func ''params''
               (PyList (ps @ map (\<lambda>(i, p). param_record i p) (enumerate (length ps) qs)))"
  using assms
proof (induction qs arbitrary: func ps)
  case Nil
  have "dict_set ''params'' (PyList ps) d = d" if "map_of d ''params'' = Some (PyList ps)" for d
    using that by (induction d) (auto split: if_splits)
  with Nil show ?case by (simp add: setattr_def)
next
  case (Cons q qs)
  have m: "map_of (snd (setattr func ''params'' (PyList (ps @ [param_record (length ps) q]))))
             ''params'' = Some (PyList (ps @ [param_record (length ps) q]))"
    by (simp add: setattr_def map_of_dict_set)
  show ?case
    by (simp add: parse_function_param_step [OF Cons.prems] Cons.IH [OF m] setattr_twice)
qed

lemma parse_function_eq:
  "parse_function m =
     (Function,
      [(''id'', PyStr (memberdef_id m)), (''name'', PyStr (memberdef_name m)),
       (''params'', PyList (map (\<lambda>(i, p). param_record i p) (enumerate 0 (memberdef_param m)))),
       (''file'', fst (resolve_spec (memberdef_location m))),
       (''line'', snd (resolve_spec (memberdef_location m))),
       (''desc'', PyStr []),
       (''return_type'', PyStr (parse_type (memberdef_type m)))])"
proof -
  let ?f = "setattr (parse_location (Function_init (memberdef_id m) (memberdef_name m))
                       (memberdef_location m)) ''desc'' (PyStr parse_description)"
  have "map_of (snd ?f) ''params'' = Some (PyList [])"
    by (simp add: parse_location_resolve Function_init_def Node_init_def setattr_def)
  from foldl_parse_function_param [OF this, of "memberdef_param m"]
  show ?thesis
    by (simp add: parse_function_def Let_def)
       (simp add: parse_location_resolve Function_init_def Node_init_def setattr_def
          parse_description_def)
qed

lemma getattr_add_parent:
  "getattr (add_parent self p) k =
     (if k = ''parent_ids'' then PySet (insert p (set_of (getattr self ''parent_ids'')))
      else getattr self k)"
  by (cases "getattr self ''parent_ids''")
     (auto simp add: add_parent_def Let_def getattr_setattr)

lemma getattr_add_child:
  "getattr (add_child self c) k =
     (if k = ''children_ids'' then PySet (insert c (set_of (getattr self ''children_ids'')))
      else getattr self k)"
  by (cases "getattr self ''children_ids''")
     (auto simp add: add_child_def Let_def getattr_setattr)

lemma add_parent_idem: "add_parent (add_parent self p) p = add_parent self p"
  by (cases "getattr self ''parent_ids''")
     (auto simp add: add_parent_def Let_def getattr_setattr setattr_twice)

lemma add_child_idem: "add_child (add_child self c) c = add_child self c"
  by (cases "getattr self ''children_ids''")
     (auto simp add: add_child_def Let_def getattr_setattr setattr_twice)

lemma getattr_empty:
  "getattr (c, []) ''parent_ids'' = PyNone"
  "getattr (c, []) ''children_ids'' = PyNone"
  by (cases c; simp add: getattr_def class_attr_def)+

lemma fresh_none:
  "getattr (Node_init c i n) ''parent_ids'' = PyNone"
  "getattr (Node_init c i n) ''children_ids'' = PyNone"
  "getattr (Struct_init i n u) ''parent_ids'' = PyNone"
  "getattr (Struct_init i n u) ''children_ids'' = PyNone"
  "getattr (Function_init i n) ''parent_ids'' = PyNone"
  "getattr (Function_init i n) ''children_ids'' = PyNone"
  by (simp_all add: Node_init_def Struct_init_def Function_init_def Let_def getattr_setattr
      getattr_empty)

lemma set_of_member: "p \<in> set_of v \<Longrightarrow> PySet (insert p (set_of v)) = v"
proof (cases v)
  case (PySet S)
  assume "p \<in> set_of v"
  with PySet have "insert p S = S" by (simp add: insert_absorb)
  with PySet show ?thesis by simp
qed simp_all

section \<open>Properties of the node classes\<close>

text \<open>
  C9. For every node, \<open>parent_ids\<close> and \<open>children_ids\<close> are \<open>None\<close> (not an empty
  set) after construction, and stay so under assignments to other attributes and under
  the other operation; after \<open>add_parent(p)\<close> (\<open>add_child(c)\<close>) the attribute is a set
  that contains \<open>p\<close> (\<open>c\<close>): the old elements and the new one; adding an id that is
  already there, or the same id twice, changes nothing; and neither operation changes
  \<open>id\<close>, \<open>kind\<close>, \<open>name\<close>, \<open>file\<close>, \<open>line\<close> or \<open>desc\<close>.
\<close>

theorem relationship_sets:
  "getattr (Node_init cl i n) ''parent_ids'' = PyNone
   \<and> getattr (Node_init cl i n) ''children_ids'' = PyNone
   \<and> getattr (Struct_init i n u) ''parent_ids'' = PyNone
   \<and> getattr (Struct_init i n u) ''children_ids'' = PyNone
   \<and> getattr (Function_init i n) ''parent_ids'' = PyNone
   \<and> getattr (Function_init i n) ''children_ids'' = PyNone
   \<and> PyNone \<noteq> PySet {}
   \<and> (k \<noteq> ''parent_ids'' \<longrightarrow>
        getattr (setattr self k v) ''parent_ids'' = getattr self ''parent_ids'')
   \<and> (k \<noteq> ''children_ids'' \<longrightarrow>
        getattr (setattr self k v) ''children_ids'' = getattr self ''children_ids'')
   \<and> getattr (add_child self c) ''parent_ids'' = getattr self ''parent_ids''
   \<and> getattr (add_parent self p) ''children_ids'' = getattr self ''children_ids''
   \<and> getattr (add_parent self p) ''parent_ids''
       = PySet (insert p (set_of (getattr self ''parent_ids'')))
   \<and> getattr (add_child self c) ''children_ids''
       = PySet (insert c (set_of (getattr self ''children_ids'')))
   \<and> (p \<in> set_of (getattr self ''parent_ids'') \<longrightarrow>
        getattr (add_parent self p) ''parent_ids'' = getattr self ''parent_ids'')
   \<and> (c \<in> set_of (getattr self ''children_ids'') \<longrightarrow>
        getattr (add_child self c) ''children_ids'' = getattr self ''children_ids'')
   \<and> add_parent (add_parent self p) p = add_parent self p
   \<and> add_child (add_child self c) c = add_child self c
   \<and> (\<forall>a \<in> {''id'', ''kind'', ''name'', ''file'', ''line'', ''desc''}.
        getattr (add_parent self p) a = getattr self a
        \<and> getattr (add_child self c) a = getattr self a)"
  by (simp add: fresh_none getattr_setattr getattr_add_parent getattr_add_child
      add_parent_idem add_child_idem set_of_member)

theorem relationship_sets_witness:
  "getattr (add_parent (Node_init File ''f'' ''a.h'') ''g'') ''parent_ids'' = PySet {''g''}
   \<and> getattr (add_parent (add_parent (Node_init File ''f'' ''a.h'') ''g'') ''g'') ''parent_ids''
       = PySet {''g''}
   \<and> getattr (add_child (Node_init File ''f'' ''a.h'') ''s'') ''children_ids'' = PySet {''s''}
   \<and> getattr (add_parent (Node_init File ''f'' ''a.h'') ''g'') ''kind'' = PyStr ''file''
   \<and> getattr (add_parent (Node_init File ''f'' ''a.h'') ''g'') ''id'' = PyStr ''f''"
  using relationship_sets [of File "''f''" "''a.h''" False "''id''" "Node_init File ''f'' ''a.h''"
      PyNone "''s''" "''g''"]
  by (simp add: Node_init_def setattr_def getattr_def class_attr_def)

section \<open>Properties of location resolution\<close>

text \<open>
  C4. For every node and location record, \<open>parse_location\<close> sets the node's file and
  line from the first candidate pair, in the order body, primary, declaration, whose
  file name ends with \<open>.h\<close>; with no location record, or with no such candidate, the
  file is the empty string and the line is \<open>None\<close>. A record with no body file, a
  primary file that is not a header and a declaration file that is one resolves to the
  declaration file.
\<close>

theorem parse_location_priority:
  "getattr (parse_location node loc) ''file'' = fst (resolve_spec loc)
   \<and> getattr (parse_location node loc) ''line'' = snd (resolve_spec loc)
   \<and> getattr (parse_location node None) ''file'' = PyStr []
   \<and> getattr (parse_location node None) ''line'' = PyNone
   \<and> ((\<forall>c \<in> set (candidates l). \<not> qualifies c) \<longrightarrow>
        getattr (parse_location node (Some l)) ''file'' = PyStr []
        \<and> getattr (parse_location node (Some l)) ''line'' = PyNone)
   \<and> ((b = NoAttr \<or> b = Attr None) \<and> \<not> suffix ''.h'' f \<and> suffix ''.h'' d \<longrightarrow>
        getattr (parse_location node
          (Some \<lparr>bodyfile = b, bodystart = bs, loc_file = Attr (Some f), loc_line = ln,
                 declfile = Attr (Some d), declline = dl\<rparr>)) ''file'' = PyStr d
        \<and> getattr (parse_location node
          (Some \<lparr>bodyfile = b, bodystart = bs, loc_file = Attr (Some f), loc_line = ln,
                 declfile = Attr (Some d), declline = dl\<rparr>)) ''line'' = line_value dl)"
proof -
  have none: "find qualifies (candidates l) = None"
    if "\<forall>c \<in> set (candidates l). \<not> qualifies c"
    using that by (simp add: find_None_iff)
  show ?thesis
    by (auto simp add: parse_location_resolve getattr_setattr resolve_spec_def none
        candidates_def)
qed

theorem parse_location_priority_witness:
  "getattr (parse_location (Node_init File ''f'' ''n'')
      (Some \<lparr>bodyfile = NoAttr, bodystart = NoAttr, loc_file = Attr (Some ''a.c''),
             loc_line = Attr (Some 3), declfile = Attr (Some ''a.h''),
             declline = Attr (Some 7)\<rparr>)) ''file'' = PyStr ''a.h''
   \<and> getattr (parse_location (Node_init File ''f'' ''n'')
      (Some \<lparr>bodyfile = NoAttr, bodystart = NoAttr, loc_file = Attr (Some ''a.c''),
             loc_line = Attr (Some 3), declfile = Attr (Some ''a.h''),
             declline = Attr (Some 7)\<rparr>)) ''line'' = PyInt 7
   \<and> getattr (parse_location (Node_init File ''f'' ''n'')
      (Some \<lparr>bodyfile = Attr (Some ''a.c''), bodystart = Attr (Some 1), loc_file = NoAttr,
             loc_line = NoAttr, declfile = Attr None, declline = NoAttr\<rparr>)) ''file'' = PyStr []"
proof -
  have s: "\<not> suffix ''.h'' ''a.c''" "suffix ''.h'' ''a.h''"
    by (simp_all add: endswith_suffix [symmetric] endswith_def)
  show ?thesis
    using parse_location_priority [of "Node_init File ''f'' ''n''" None
        "\<lparr>bodyfile = Attr (Some ''a.c''), bodystart = Attr (Some 1), loc_file = NoAttr,
          loc_line = NoAttr, declfile = Attr None, declline = NoAttr\<rparr>"
        NoAttr "''a.c''" "''a.h''" NoAttr "Attr (Some 3)" "Attr (Some 7)"]
    by (simp add: s candidates_def)
qed

section \<open>Properties of function parsing\<close>

text \<open>
  C7. For every function-kind member definition, \<open>parse_memberdef\<close> yields exactly
  one node, the \<open>Function\<close> node of \<open>parse_function\<close>. Its \<open>params\<close> list holds one
  \<open>Param\<close> per declared parameter, in declaration order; the one at position \<open>i\<close> has
  \<open>index\<close> \<open>i\<close>, the flattened type of the parameter's type fragment as \<open>type\<close> and
  the declared name as \<open>name\<close>. \<open>return_type\<close> is the flattened return-type fragment,
  \<open>"void"\<close> when that record is absent.
\<close>

theorem parse_function_params:
  "(memberdef_kind m = FUNCTION \<longrightarrow> parse_memberdef m = [parse_function m])
   \<and> fst (parse_function m) = Function
   \<and> getattr (parse_function m) ''params''
       = PyList (map (\<lambda>(i, p). param_record i p) (enumerate 0 (memberdef_param m)))
   \<and> length (list_of (getattr (parse_function m) ''params'')) = length (memberdef_param m)
   \<and> (\<forall>i < length (memberdef_param m).
        list_of (getattr (parse_function m) ''params'') ! i
          = param_record i (memberdef_param m ! i))
   \<and> (param_record j q = obj param \<longrightarrow>
        fst param = Param
        \<and> getattr param ''index'' = PyInt (int j)
        \<and> getattr param ''type'' = PyStr (parse_type (param_type q))
        \<and> getattr param ''name'' = str_or_none (declname q))
   \<and> getattr (parse_function m) ''return_type'' = PyStr (parse_type (memberdef_type m))
   \<and> (memberdef_type m = None \<longrightarrow>
        getattr (parse_function m) ''return_type'' = PyStr ''void'')"
proof -
  let ?params = "map (\<lambda>(i, p). param_record i p) (enumerate 0 (memberdef_param m))"
  have k1: "memberdef_kind m = FUNCTION \<longrightarrow> parse_memberdef m = [parse_function m]"
    by (simp add: parse_memberdef_def)
  have k2: "fst (parse_function m) = Function"
    by (simp add: parse_function_eq)
  have k3: "getattr (parse_function m) ''params'' = PyList ?params"
    by (simp add: parse_function_eq getattr_def)
  have k4: "length (list_of (getattr (parse_function m) ''params'')) = length (memberdef_param m)"
    by (simp add: k3)
  have k5: "\<forall>i < length (memberdef_param m).
      list_of (getattr (parse_function m) ''params'') ! i
        = param_record i (memberdef_param m ! i)"
    by (simp add: k3 nth_enumerate_eq)
  have k6: "param_record j q = obj param \<longrightarrow>
      fst param = Param
      \<and> getattr param ''index'' = PyInt (int j)
      \<and> getattr param ''type'' = PyStr (parse_type (param_type q))
      \<and> getattr param ''name'' = str_or_none (declname q)"
    by (cases param) (auto simp add: param_record_def obj_def getattr_def)
  have k7: "getattr (parse_function m) ''return_type'' = PyStr (parse_type (memberdef_type m))"
    by (simp add: parse_function_eq getattr_def)
  have k8: "memberdef_type m = None \<longrightarrow>
      getattr (parse_function m) ''return_type'' = PyStr ''void''"
    by (simp add: k7 parse_type_def)
  from k1 k2 k3 k4 k5 k6 k7 k8 show ?thesis by blast
qed

theorem parse_function_params_witness:
  "parse_memberdef \<lparr>memberdef_kind = ''function'', memberdef_id = ''f1'',
      memberdef_name = ''open'', memberdef_location = None,
      memberdef_param = [\<lparr>declname = Some ''path'',
                           param_type = Some \<lparr>content = [CategoryText ''const char *'']\<rparr>\<rparr>,
                         \<lparr>declname = Some ''mode'',
                           param_type = Some \<lparr>content = [CategoryText ''int'']\<rparr>\<rparr>],
      memberdef_type = None\<rparr>
   = [(Function,
       [(''id'', PyStr ''f1''), (''name'', PyStr ''open''),
        (''params'', PyList
          [PyObj Param [(''index'', PyInt 0), (''desc'', PyStr []),
                        (''name'', PyStr ''path''), (''type'', PyStr ''const char *'')],
           PyObj Param [(''index'', PyInt 1), (''desc'', PyStr []),
                        (''name'', PyStr ''mode''), (''type'', PyStr ''int'')]]),
        (''file'', PyStr []), (''line'', PyNone), (''desc'', PyStr []),
        (''return_type'', PyStr ''void'')])]"
  using parse_function_params [of "\<lparr>memberdef_kind = ''function'', memberdef_id = ''f1'',
      memberdef_name = ''open'', memberdef_location = None,
      memberdef_param = [\<lparr>declname = Some ''path'',
                           param_type = Some \<lparr>content = [CategoryText ''const char *'']\<rparr>\<rparr>,
                         \<lparr>declname = Some ''mode'',
                           param_type = Some \<lparr>content = [CategoryText ''int'']\<rparr>\<rparr>],
      memberdef_type = None\<rparr>" 0 "\<lparr>declname = Some ''path'',
                           param_type = Some \<lparr>content = [CategoryText ''const char *'']\<rparr>\<rparr>"
      "(Param, [])"]
  by (simp add: FUNCTION_def parse_function_eq resolve_spec_def param_record_def
      parse_type_def)

section \<open>Properties of the dispatcher and of kind filtering\<close>

lemma zip_as_indexed:
  "zip (map f xs) (zip xs [0..<length xs]) = map (\<lambda>i. (f (xs ! i), xs ! i, i)) [0..<length xs]"
  by (rule nth_equalityI) simp_all

text \<open>
  C8. For every function and every collection shorter than the threshold,
  \<open>concurrent_pool_iter\<close> returns the direct sequential mapping
  \<open>(f x0, x0, 0), (f x1, x1, 1), ...\<close>, item for item, whatever the executor is: no
  pool takes part.
\<close>

theorem sequential_below_threshold:
  "int (length xs) < threshold \<Longrightarrow>
     concurrent_pool_iter executor_map cpu_count f xs use_process threshold
       = sequential_mapping f xs"
  by (simp add: concurrent_pool_iter_def sequential_mapping_def zip_as_indexed)

theorem sequential_below_threshold_witness:
  "concurrent_pool_iter (\<lambda>p w g ys c. []) (Some 8) length [''ab'', ''c''] True 20
     = [(2, ''ab'', 0), (1, ''c'', 1)]"
  using sequential_below_threshold
    [of "[''ab'', ''c'']" 20 "\<lambda>p w g ys c. []" "Some 8" length True]
  by (simp add: sequential_mapping_def)

lemma foldl_parse_all_step:
  "foldl parse_all_step st index =
     (fst st @ map index_refid
        (filter (\<lambda>c. index_kind c \<in> {FILE, GROUP, STRUCT, CLASS, UNION}) index),
      snd st @ map (\<lambda>c. warning (''Unknown doxygen compound kind: \"'' @ index_kind c @ ''\"''))
        (filter (\<lambda>c. index_kind c \<notin> {FILE, GROUP, STRUCT, CLASS, UNION}
                       \<and> index_kind c \<notin> {PAGE, DIR, CATEGORY, CONCEPT, EXAMPLE}) index))"
proof (induction index arbitrary: st)
  case Nil
  show ?case by simp
next
  case (Cons c cs)
  let ?K = "{FILE, GROUP, STRUCT, CLASS, UNION}"
  let ?S = "{PAGE, DIR, CATEGORY, CONCEPT, EXAMPLE}"
  let ?w = "warning (''Unknown doxygen compound kind: \"'' @ index_kind c @ ''\"'')"
  consider (keep) "index_kind c \<in> ?K"
    | (skip) "index_kind c \<notin> ?K" "index_kind c \<in> ?S"
    | (unknown) "index_kind c \<notin> ?K" "index_kind c \<notin> ?S"
    by blast
  then show ?case
  proof cases
    case keep
    then have "parse_all_step st c = (fst st @ [index_refid c], snd st)"
      unfolding parse_all_step_def by (simp only: if_True)
    with keep show ?thesis by (simp only: foldl_Cons Cons.IH filter.simps if_True if_False
          list.map fst_conv snd_conv append_assoc append_Cons append_Nil simp_thms)
  next
    case skip
    then have "parse_all_step st c = st"
      unfolding parse_all_step_def by (simp only: if_True if_False)
    with skip show ?thesis by (simp only: foldl_Cons Cons.IH filter.simps if_True if_False
          list.map fst_conv snd_conv append_assoc append_Cons append_Nil simp_thms)
  next
    case unknown
    then have "parse_all_step st c = (fst st, snd st @ [?w])"
      unfolding parse_all_step_def by (simp only: if_True if_False)
    with unknown show ?thesis by (simp only: foldl_Cons Cons.IH filter.simps if_True if_False
          list.map fst_conv snd_conv append_assoc append_Cons append_Nil simp_thms)
  qed
qed

lemma foldl_process_compound_step_warnings:
  "snd (foldl process_compound_step st comps) =
     snd st @ map (\<lambda>c. warning (''Unexpected doxygen compound kind: \"'' @ compound_kind c @ ''\"''))
        (filter (\<lambda>c. compound_kind c \<notin> {FILE, GROUP, STRUCT, CLASS, UNION}) comps)"
proof (induction comps arbitrary: st)
  case Nil
  show ?case by simp
next
  case (Cons c cs)
  let ?K = "{FILE, GROUP, STRUCT, CLASS, UNION}"
  let ?w = "warning (''Unexpected doxygen compound kind: \"'' @ compound_kind c @ ''\"'')"
  show ?case
  proof (cases "compound_kind c \<in> ?K")
    case True
    then have "snd (process_compound_step st c) = snd st"
      by (auto simp add: process_compound_step_def)
    with True show ?thesis by (simp only: foldl_Cons Cons.IH filter.simps if_True if_False
          list.map append_assoc append_Cons append_Nil simp_thms)
  next
    case False
    then have "snd (process_compound_step st c) = snd st @ [?w]"
      by (auto simp add: process_compound_step_def)
    with False show ?thesis by (simp only: foldl_Cons Cons.IH filter.simps if_True if_False
          list.map append_assoc append_Cons append_Nil simp_thms)
  qed
qed

lemma kinds_distinct:
  "PAGE \<notin> {FILE, GROUP, STRUCT, CLASS, UNION}"
  "DIR \<notin> {FILE, GROUP, STRUCT, CLASS, UNION}"
  "CATEGORY \<notin> {FILE, GROUP, STRUCT, CLASS, UNION}"
  "CONCEPT \<notin> {FILE, GROUP, STRUCT, CLASS, UNION}"
  "EXAMPLE \<notin> {FILE, GROUP, STRUCT, CLASS, UNION}"
  by (simp_all add: FILE_def GROUP_def STRUCT_def CLASS_def UNION_def PAGE_def DIR_def
      CATEGORY_def CONCEPT_def EXAMPLE_def)

lemma nodes_foldl_extend:
  "nodes (foldl (\<lambda>s triple. s\<lparr>nodes := nodes s @ fst (fst triple),
                                 stderr := stderr s @ snd (fst triple)\<rparr>) s0 triples)
     = nodes s0 @ concat (map (\<lambda>triple. fst (fst triple)) triples)"
  by (induction triples arbitrary: s0) simp_all

lemma fst_process_compound_step:
  "fst (process_compound_step st c) = fst st @ fst (process_compound_step ([], []) c)"
  by (simp add: process_compound_step_def)

lemma fst_foldl_process_compound_step:
  "fst (foldl process_compound_step st comps)
     = fst st @ concat (map (\<lambda>c. fst (process_compound_step ([], []) c)) comps)"
proof (induction comps arbitrary: st)
  case Nil
  show ?case by simp
next
  case (Cons c cs)
  show ?case
    by (simp only: foldl_Cons Cons.IH list.map concat.simps append_assoc
        fst_process_compound_step [of st c])
qed

lemma unrecognized_no_node:
  "compound_kind c \<notin> {FILE, GROUP, STRUCT, CLASS, UNION} \<Longrightarrow>
     process_compound_step st c
       = (fst st, snd st @ [warning (''Unexpected doxygen compound kind: \"''
                                     @ compound_kind c @ ''\"'')])"
  by (auto simp add: process_compound_step_def)

lemma concat_map_filter_nonempty:
  "(\<And>x. \<not> P x \<Longrightarrow> g x = []) \<Longrightarrow> concat (map g (filter P xs)) = concat (map g xs)"
  by (induction xs) auto

lemma foldl_process_compound_step_nodes:
  "fst (foldl process_compound_step st comps) =
     fst (foldl process_compound_step st
            (filter (\<lambda>c. compound_kind c \<in> {FILE, GROUP, STRUCT, CLASS, UNION}) comps))"
proof -
  let ?g = "\<lambda>c. fst (process_compound_step ([], []) c)"
  let ?P = "\<lambda>c. compound_kind c \<in> {FILE, GROUP, STRUCT, CLASS, UNION}"
  have "?g c = []" if "\<not> ?P c" for c
    using that unrecognized_no_node [of c "([], [])"] by simp
  then have "concat (map ?g (filter ?P comps)) = concat (map ?g comps)"
    by (rule concat_map_filter_nonempty)
  then show ?thesis
    by (simp only: fst_foldl_process_compound_step)
qed

text \<open>
  C6. The index loop of \<open>parse_all\<close> keeps the id of a listed compound exactly when
  its kind is one of file, group, struct, class, union, and these ids, shuffled, are what
  is dispatched; a compound of kind page, dir, category, concept or example changes
  nothing (no id, no warning); every compound of another kind adds one warning. In
  \<open>process_compound\<close>, a compound definition whose kind is outside file, group,
  struct, class, union adds one warning that names the kind and no node.
\<close>

theorem kind_filtering:
  "fst (parse_all_ids index)
     = map index_refid
         (filter (\<lambda>c. index_kind c \<in> {FILE, GROUP, STRUCT, CLASS, UNION}) index)
   \<and> snd (parse_all_ids index)
     = map (\<lambda>c. warning (''Unknown doxygen compound kind: \"'' @ index_kind c @ ''\"''))
         (filter (\<lambda>c. index_kind c \<notin> {FILE, GROUP, STRUCT, CLASS, UNION}
                        \<and> index_kind c \<notin> {PAGE, DIR, CATEGORY, CONCEPT, EXAMPLE}) index)
   \<and> (\<forall>k \<in> {PAGE, DIR, CATEGORY, CONCEPT, EXAMPLE}.
        parse_all_step st \<lparr>index_refid = r, index_kind = k\<rparr> = st)
   \<and> nodes (parse_all executor_map cpu_count shuffle xml index s)
     = nodes s @ concat (map (\<lambda>triple. fst (fst triple))
         (concurrent_pool_iter executor_map cpu_count (process_compound xml)
            (shuffle (map index_refid
               (filter (\<lambda>c. index_kind c \<in> {FILE, GROUP, STRUCT, CLASS, UNION}) index)))
            True 20))
   \<and> (compound_kind c \<notin> {FILE, GROUP, STRUCT, CLASS, UNION} \<longrightarrow>
        process_compound_step st' c
          = (fst st', snd st' @ [warning (''Unexpected doxygen compound kind: \"''
                                          @ compound_kind c @ ''\"'')]))
   \<and> snd (process_compound xml ident)
     = map (\<lambda>c. warning (''Unexpected doxygen compound kind: \"'' @ compound_kind c @ ''\"''))
         (filter (\<lambda>c. compound_kind c \<notin> {FILE, GROUP, STRUCT, CLASS, UNION}) (xml ident))
   \<and> fst (process_compound xml ident)
     = fst (process_compound
              (\<lambda>j. filter (\<lambda>c. compound_kind c \<in> {FILE, GROUP, STRUCT, CLASS, UNION}) (xml j))
              ident)"
proof -
  have ids: "parse_all_ids index
      = (map index_refid
           (filter (\<lambda>c. index_kind c \<in> {FILE, GROUP, STRUCT, CLASS, UNION}) index),
         map (\<lambda>c. warning (''Unknown doxygen compound kind: \"'' @ index_kind c @ ''\"''))
           (filter (\<lambda>c. index_kind c \<notin> {FILE, GROUP, STRUCT, CLASS, UNION}
                          \<and> index_kind c \<notin> {PAGE, DIR, CATEGORY, CONCEPT, EXAMPLE}) index))"
    by (simp only: parse_all_ids_def foldl_parse_all_step fst_conv snd_conv append_Nil)
  have k1: "fst (parse_all_ids index)
      = map index_refid
          (filter (\<lambda>c. index_kind c \<in> {FILE, GROUP, STRUCT, CLASS, UNION}) index)"
    by (simp only: ids fst_conv)
  have k2: "snd (parse_all_ids index)
      = map (\<lambda>c. warning (''Unknown doxygen compound kind: \"'' @ index_kind c @ ''\"''))
          (filter (\<lambda>c. index_kind c \<notin> {FILE, GROUP, STRUCT, CLASS, UNION}
                         \<and> index_kind c \<notin> {PAGE, DIR, CATEGORY, CONCEPT, EXAMPLE}) index)"
    by (simp only: ids snd_conv)
  have k3: "\<forall>k \<in> {PAGE, DIR, CATEGORY, CONCEPT, EXAMPLE}.
      parse_all_step st \<lparr>index_refid = r, index_kind = k\<rparr> = st"
    using kinds_distinct by (auto simp add: parse_all_step_def)
  have k4: "nodes (parse_all executor_map cpu_count shuffle xml index s)
      = nodes s @ concat (map (\<lambda>triple. fst (fst triple))
          (concurrent_pool_iter executor_map cpu_count (process_compound xml)
             (shuffle (map index_refid
                (filter (\<lambda>c. index_kind c \<in> {FILE, GROUP, STRUCT, CLASS, UNION}) index)))
             True 20))"
    by (simp add: parse_all_def ids nodes_foldl_extend)
  have k5: "compound_kind c \<notin> {FILE, GROUP, STRUCT, CLASS, UNION} \<longrightarrow>
      process_compound_step st' c
        = (fst st', snd st' @ [warning (''Unexpected doxygen compound kind: \"''
                                        @ compound_kind c @ ''\"'')])"
    using unrecognized_no_node [of c st'] by blast
  have k6: "snd (process_compound xml ident)
      = map (\<lambda>c. warning (''Unexpected doxygen compound kind: \"'' @ compound_kind c @ ''\"''))
          (filter (\<lambda>c. compound_kind c \<notin> {FILE, GROUP, STRUCT, CLASS, UNION}) (xml ident))"
    by (simp only: process_compound_def foldl_process_compound_step_warnings snd_conv
        append_Nil)
  have k7: "fst (process_compound xml ident)
      = fst (process_compound
               (\<lambda>j. filter (\<lambda>c. compound_kind c \<in> {FILE, GROUP, STRUCT, CLASS, UNION}) (xml j))
               ident)"
    unfolding process_compound_def by (rule foldl_process_compound_step_nodes)
  from k1 k2 k3 k4 k5 k6 k7 show ?thesis by (intro conjI)
qed

theorem kind_filtering_witness:
  "fst (parse_all_ids [\<lparr>index_refid = ''a_8h'', index_kind = ''file''\<rparr>,
                        \<lparr>index_refid = ''intro'', index_kind = ''page''\<rparr>,
                        \<lparr>index_refid = ''ns'', index_kind = ''namespace''\<rparr>]) = [''a_8h'']
   \<and> snd (parse_all_ids [\<lparr>index_refid = ''a_8h'', index_kind = ''file''\<rparr>,
                        \<lparr>index_refid = ''intro'', index_kind = ''page''\<rparr>,
                        \<lparr>index_refid = ''ns'', index_kind = ''namespace''\<rparr>])
       = [warning ''Unknown doxygen compound kind: \"namespace\"'']
   \<and> parse_all_step ([''a_8h''], []) \<lparr>index_refid = ''intro'', index_kind = ''page''\<rparr>
       = ([''a_8h''], [])
   \<and> process_compound_step ([], [])
        \<lparr>compound_kind = ''page'', compound_id = ''intro'', compoundname = ''intro'',
          compound_title = None, compound_location = None, compound_innerclass = None,
          compound_innergroup = None, compound_sectiondef = None\<rparr>
       = ([], [warning ''Unexpected doxygen compound kind: \"page\"''])"
  using kind_filtering
    [of "[\<lparr>index_refid = ''a_8h'', index_kind = ''file''\<rparr>,
          \<lparr>index_refid = ''intro'', index_kind = ''page''\<rparr>,
          \<lparr>index_refid = ''ns'', index_kind = ''namespace''\<rparr>]"
        "([''a_8h''], [])" "''intro''" _ _ _ _ _
        "\<lparr>compound_kind = ''page'', compound_id = ''intro'', compoundname = ''intro'',
          compound_title = None, compound_location = None, compound_innerclass = None,
          compound_innergroup = None, compound_sectiondef = None\<rparr>"
        "([], [])"]
  by (simp add: FILE_def GROUP_def STRUCT_def CLASS_def UNION_def PAGE_def DIR_def
      CATEGORY_def CONCEPT_def EXAMPLE_def)

text \<open>
  C1. \<open>process_compound\<close> appends the list that \<open>parse_file\<close> or \<open>parse_group\<close>
  returns as one element of its result, and \<open>parse_all\<close> extends \<open>nodes\<close> by the
  elements of that result: for an index with one file compound the global collection
  holds one element, a list that holds the file node, and no element that is a node.
\<close>

theorem nodes_holds_nested_list:
  "nodes example_run
     = [PyList [PyObj File [(''id'', PyStr ''a_8h''), (''name'', PyStr ''a.h''),
                            (''file'', PyStr []), (''line'', PyNone), (''desc'', PyStr [])]]]
   \<and> \<not> list_all is_node (nodes example_run)
   \<and> fst (process_compound_step st (c\<lparr>compound_kind := FILE\<rparr>))
       = fst st @ [PyList (map obj (parse_file (c\<lparr>compound_kind := FILE\<rparr>)))]"
proof -
  have ids: "parse_all_ids example_index = ([''a_8h''], [])"
    by (simp add: parse_all_ids_def example_index_def parse_all_step_def FILE_def)
  have pf: "parse_file \<lparr>compound_kind = ''file'', compound_id = ''a_8h'',
        compoundname = ''a.h'', compound_title = None, compound_location = None,
        compound_innerclass = None, compound_innergroup = None, compound_sectiondef = None\<rparr>
      = [(File, [(''id'', PyStr ''a_8h''), (''name'', PyStr ''a.h''),
                 (''file'', PyStr []), (''line'', PyNone), (''desc'', PyStr [])])]"
    by (simp add: parse_file_def parse_file_or_group_def parse_location_def Node_init_def
        setattr_def parse_description_def)
  have pc: "process_compound example_xml ''a_8h''
      = ([PyList [PyObj File [(''id'', PyStr ''a_8h''), (''name'', PyStr ''a.h''),
                              (''file'', PyStr []), (''line'', PyNone), (''desc'', PyStr [])]]],
         [])"
    by (simp add: process_compound_def example_xml_def process_compound_step_def FILE_def
        pf obj_def)
  have run: "nodes example_run
      = [PyList [PyObj File [(''id'', PyStr ''a_8h''), (''name'', PyStr ''a.h''),
                             (''file'', PyStr []), (''line'', PyNone), (''desc'', PyStr [])]]]"
    by (simp add: example_run_def parse_all_def ids concurrent_pool_iter_def pc)
  have step: "fst (process_compound_step st (c\<lparr>compound_kind := FILE\<rparr>))
      = fst st @ [PyList (map obj (parse_file (c\<lparr>compound_kind := FILE\<rparr>)))]"
    by (simp add: process_compound_step_def)
  show ?thesis by (simp add: run step)
qed

section \<open>Properties of the output document\<close>

lemma add_child_eq:
  "add_child n c
     = setattr n ''children_ids'' (PySet (insert c (set_of (getattr n ''children_ids''))))"
  by (cases "getattr n ''children_ids''")
     (auto simp add: add_child_def Let_def getattr_setattr setattr_twice)

lemma foldl_add_child:
  "foldl add_child n ids
     = (if ids = [] then n
        else setattr n ''children_ids''
               (PySet (set_of (getattr n ''children_ids'') \<union> set ids)))"
proof (induction ids arbitrary: n)
  case Nil
  show ?case by simp
next
  case (Cons c cs)
  have g: "set_of (getattr (add_child n c) ''children_ids'')
             = insert c (set_of (getattr n ''children_ids''))"
    by (simp add: getattr_add_child)
  show ?case
  proof (cases "cs = []")
    case True
    then show ?thesis by (simp add: add_child_eq)
  next
    case False
    then have "foldl add_child (add_child n c) cs
        = setattr (add_child n c) ''children_ids''
            (PySet (insert c (set_of (getattr n ''children_ids'')) \<union> set cs))"
      by (simp only: Cons.IH g if_False)
    also have "\<dots> = setattr n ''children_ids''
            (PySet (insert c (set_of (getattr n ''children_ids'')) \<union> set cs))"
      by (simp only: add_child_eq setattr_twice)
    finally show ?thesis by simp
  qed
qed

lemma foldl_add_child_map:
  "foldl (\<lambda>n x. add_child n (g x)) n xs = foldl add_child n (map g xs)"
  by (induction xs arbitrary: n) simp_all

lemma parse_function_id: "str_of (getattr (parse_function md) ''id'') = memberdef_id md"
  by (simp add: parse_function_eq getattr_def)

lemma parse_sectiondef_memberdef_eq:
  "parse_sectiondef_memberdef st md =
     (foldl add_child (fst st)
        (map memberdef_id (filter (\<lambda>md. memberdef_kind md = FUNCTION) [md])),
      snd st @ map parse_function (filter (\<lambda>md. memberdef_kind md = FUNCTION) [md]))"
  by (simp add: parse_sectiondef_memberdef_def parse_memberdef_def parse_function_id)

lemma foldl_parse_sectiondef_memberdef:
  "foldl parse_sectiondef_memberdef st mds =
     (foldl add_child (fst st)
        (map memberdef_id (filter (\<lambda>md. memberdef_kind md = FUNCTION) mds)),
      snd st @ map parse_function (filter (\<lambda>md. memberdef_kind md = FUNCTION) mds))"
proof (induction mds arbitrary: st)
  case Nil
  show ?case by simp
next
  case (Cons md mds)
  have "foldl parse_sectiondef_memberdef st (md # mds)
      = foldl parse_sectiondef_memberdef (parse_sectiondef_memberdef st md) mds"
    by simp
  also have "\<dots>
      = (foldl add_child (fst (parse_sectiondef_memberdef st md))
           (map memberdef_id (filter (\<lambda>md. memberdef_kind md = FUNCTION) mds)),
         snd (parse_sectiondef_memberdef st md)
         @ map parse_function (filter (\<lambda>md. memberdef_kind md = FUNCTION) mds))"
    by (rule Cons.IH)
  also have "\<dots>
      = (foldl add_child (fst st)
           (map memberdef_id (filter (\<lambda>md. memberdef_kind md = FUNCTION) (md # mds))),
         snd st @ map parse_function (filter (\<lambda>md. memberdef_kind md = FUNCTION) (md # mds)))"
    by (simp add: parse_sectiondef_memberdef_eq)
  finally show ?case .
qed

lemma parse_sectiondef_eq:
  "parse_sectiondef st sd =
     (foldl add_child (fst st)
        (map member_refid (sectiondef_member sd)
         @ map memberdef_id (filter (\<lambda>md. memberdef_kind md = FUNCTION)
                              (or_empty (sectiondef_memberdef sd)))),
      snd st @ map parse_function (filter (\<lambda>md. memberdef_kind md = FUNCTION)
                                     (or_empty (sectiondef_memberdef sd))))"
  by (simp add: parse_sectiondef_def foldl_parse_sectiondef_memberdef
      foldl_add_child_map [of member_refid])

lemma foldl_parse_sectiondef:
  "foldl parse_sectiondef st sds =
     (foldl add_child (fst st)
        (concat (map (\<lambda>sd. map member_refid (sectiondef_member sd)
                          @ map memberdef_id (filter (\<lambda>md. memberdef_kind md = FUNCTION)
                                               (or_empty (sectiondef_memberdef sd)))) sds)),
      snd st @ map parse_function
        (concat (map (\<lambda>sd. filter (\<lambda>md. memberdef_kind md = FUNCTION)
                              (or_empty (sectiondef_memberdef sd))) sds)))"
proof (induction sds arbitrary: st)
  case Nil
  show ?case by simp
next
  case (Cons sd sds)
  let ?ids = "\<lambda>sd. map member_refid (sectiondef_member sd)
                 @ map memberdef_id (filter (\<lambda>md. memberdef_kind md = FUNCTION)
                                      (or_empty (sectiondef_memberdef sd)))"
  let ?funs = "\<lambda>sd. filter (\<lambda>md. memberdef_kind md = FUNCTION)
                        (or_empty (sectiondef_memberdef sd))"
  have "foldl parse_sectiondef st (sd # sds)
      = foldl parse_sectiondef (parse_sectiondef st sd) sds"
    by simp
  also have "\<dots>
      = (foldl add_child (fst (parse_sectiondef st sd)) (concat (map ?ids sds)),
         snd (parse_sectiondef st sd) @ map parse_function (concat (map ?funs sds)))"
    by (rule Cons.IH)
  also have "\<dots>
      = (foldl add_child (fst st) (concat (map ?ids (sd # sds))),
         snd st @ map parse_function (concat (map ?funs (sd # sds))))"
    by (simp add: parse_sectiondef_eq)
  finally show ?case .
qed

lemma parse_file_or_group_eq:
  "parse_file_or_group node compound =
     foldl add_child
       (setattr (parse_location node (compound_location compound)) ''desc'' (PyStr []))
       (child_ids compound)
     # map parse_function (function_members compound)"
  by (simp add: parse_file_or_group_def Let_def foldl_parse_sectiondef
      foldl_add_child_map [of ref_refid] child_ids_def function_members_def
      parse_description_def)

lemma encode_obj:
  "encode iter (obj (c, d)) = JObject (map (map_prod (\<lambda>k. k) (encode iter)) d)"
  by (simp add: obj_def)

lemma encode_param_record: "encode iter (param_record i p) = param_json iter i p"
  by (simp add: param_record_def param_json_def)

lemma container_node_eq:
  assumes "map_of d ''children_ids'' = None" "map_of d ''file'' = None"
    "map_of d ''line'' = None" "map_of d ''desc'' = None"
  shows "foldl add_child (setattr (parse_location (cl, d) loc) ''desc'' (PyStr [])) ids
     = (cl, d @ [(''file'', fst (resolve_spec loc)), (''line'', snd (resolve_spec loc)),
                 (''desc'', PyStr [])]
            @ (if ids = [] then [] else [(''children_ids'', PySet (set ids))]))"
proof -
  have app: "dict_set k v e = e @ [(k, v)]" if "map_of e k = None" for k v e
    using that by (induction e) (auto split: if_splits)
  let ?d1 = "d @ [(''file'', fst (resolve_spec loc)), (''line'', snd (resolve_spec loc)),
                  (''desc'', PyStr [])]"
  have n: "setattr (parse_location (cl, d) loc) ''desc'' (PyStr []) = (cl, ?d1)"
    using assms by (simp add: parse_location_resolve setattr_def app)
  have c: "map_of ?d1 ''children_ids'' = None"
    using assms by simp
  have g: "getattr (cl, ?d1) ''children_ids'' = PyNone"
    by (cases cl) (simp_all only: getattr_def c fst_conv snd_conv option.case,
        simp_all add: class_attr_def)
  show ?thesis
    by (simp only: n foldl_add_child g) (simp add: setattr_def app [OF c])
qed

text \<open>
  What \<open>MyEncoder\<close> writes for the nodes that the parsers return: the entries of
  each node's instance dictionary, in the order of their first assignment. The document
  is the list of the renderings of the elements of \<open>nodes\<close>.
\<close>

lemma rendered_objects:
  "encode iter (obj (parse_struct c u))
     = JObject ([(''id'', JString (compound_id c)), (''name'', JString (compoundname c)),
                 (''is_union'', JBool u),
                 (''kind'', JString (if u then ''union'' else ''struct''))]
                @ location_fields iter (compound_location c)
                @ [(''desc'', JString [])])
   \<and> encode iter (obj (parse_function m))
     = JObject ([(''id'', JString (memberdef_id m)), (''name'', JString (memberdef_name m)),
                 (''params'', JArray (map (\<lambda>(i, p). param_json iter i p)
                                        (enumerate 0 (memberdef_param m))))]
                @ location_fields iter (memberdef_location m)
                @ [(''desc'', JString []),
                   (''return_type'', JString (parse_type (memberdef_type m)))])
   \<and> map (\<lambda>n. encode iter (obj n)) (parse_file c)
     = JObject ([(''id'', JString (compound_id c)), (''name'', JString (compoundname c))]
                @ location_fields iter (compound_location c)
                @ [(''desc'', JString [])]
                @ children_field iter (child_ids c))
       # map (\<lambda>md. encode iter (obj (parse_function md))) (function_members c)
   \<and> map (\<lambda>n. encode iter (obj n)) (parse_group c)
     = JObject ([(''id'', JString (compound_id c)), (''name'', JString (compoundname c)),
                 (''title'', encode iter (str_or_none (compound_title c)))]
                @ location_fields iter (compound_location c)
                @ [(''desc'', JString [])]
                @ children_field iter (child_ids c))
       # map (\<lambda>md. encode iter (obj (parse_function md))) (function_members c)
   \<and> output_document iter st = JArray (map (encode iter) (nodes st))"
proof -
  have k1: "encode iter (obj (parse_struct c u))
     = JObject ([(''id'', JString (compound_id c)), (''name'', JString (compoundname c)),
                 (''is_union'', JBool u),
                 (''kind'', JString (if u then ''union'' else ''struct''))]
                @ location_fields iter (compound_location c)
                @ [(''desc'', JString [])])"
    by (simp add: parse_struct_def Struct_init_def Node_init_def parse_location_resolve
        setattr_def parse_description_def obj_def location_fields_def)
  have k2: "encode iter (obj (parse_function m))
     = JObject ([(''id'', JString (memberdef_id m)), (''name'', JString (memberdef_name m)),
                 (''params'', JArray (map (\<lambda>(i, p). param_json iter i p)
                                        (enumerate 0 (memberdef_param m))))]
                @ location_fields iter (memberdef_location m)
                @ [(''desc'', JString []),
                   (''return_type'', JString (parse_type (memberdef_type m)))])"
    by (simp add: parse_function_eq obj_def location_fields_def encode_param_record
        split_def)
  have ni: "Node_init File (compound_id c) (compoundname c)
      = (File, [(''id'', PyStr (compound_id c)), (''name'', PyStr (compoundname c))])"
    by (simp add: Node_init_def setattr_def)
  have gi: "setattr (Node_init Group (compound_id c) (compoundname c)) ''title''
        (str_or_none (compound_title c))
      = (Group, [(''id'', PyStr (compound_id c)), (''name'', PyStr (compoundname c)),
                 (''title'', str_or_none (compound_title c))])"
    by (simp add: Node_init_def setattr_def)
  have f: "parse_file c
      = (File, [(''id'', PyStr (compound_id c)), (''name'', PyStr (compoundname c))]
               @ [(''file'', fst (resolve_spec (compound_location c))),
                  (''line'', snd (resolve_spec (compound_location c))), (''desc'', PyStr [])]
               @ (if child_ids c = [] then []
                  else [(''children_ids'', PySet (set (child_ids c)))]))
        # map parse_function (function_members c)"
    by (simp add: parse_file_def parse_file_or_group_eq ni container_node_eq)
  have g: "parse_group c
      = (Group, [(''id'', PyStr (compound_id c)), (''name'', PyStr (compoundname c)),
                 (''title'', str_or_none (compound_title c))]
               @ [(''file'', fst (resolve_spec (compound_location c))),
                  (''line'', snd (resolve_spec (compound_location c))), (''desc'', PyStr [])]
               @ (if child_ids c = [] then []
                  else [(''children_ids'', PySet (set (child_ids c)))]))
        # map parse_function (function_members c)"
    by (simp add: parse_group_def Let_def parse_file_or_group_eq gi container_node_eq)
  have k3: "map (\<lambda>n. encode iter (obj n)) (parse_file c)
     = JObject ([(''id'', JString (compound_id c)), (''name'', JString (compoundname c))]
                @ location_fields iter (compound_location c)
                @ [(''desc'', JString [])]
                @ children_field iter (child_ids c))
       # map (\<lambda>md. encode iter (obj (parse_function md))) (function_members c)"
    by (simp add: f obj_def location_fields_def children_field_def comp_def)
  have k4: "map (\<lambda>n. encode iter (obj n)) (parse_group c)
     = JObject ([(''id'', JString (compound_id c)), (''name'', JString (compoundname c)),
                 (''title'', encode iter (str_or_none (compound_title c)))]
                @ location_fields iter (compound_location c)
                @ [(''desc'', JString [])]
                @ children_field iter (child_ids c))
       # map (\<lambda>md. encode iter (obj (parse_function md))) (function_members c)"
    by (simp add: g obj_def location_fields_def children_field_def comp_def)
  have k5: "output_document iter st = JArray (map (encode iter) (nodes st))"
    by (simp add: output_document_def)
  from k1 k2 k3 k4 k5 show ?thesis by (intro conjI)
qed

text \<open>
  C2. Every node in the global collection should be rendered with the full field set
  of its variant, the \<open>kind\<close> discriminator included. The script does so for a struct
  or union, whose constructor assigns \<open>self.kind\<close>, but not for a file: the file node
  of the one-file input has \<open>kind\<close> \<open>'file'\<close>, and the object written for it has the
  keys \<open>id\<close>, \<open>name\<close>, \<open>file\<close>, \<open>line\<close>, \<open>desc\<close> and no \<open>kind\<close>, because
  \<open>kind\<close> is a class attribute of \<open>File\<close> and the encoder writes \<open>o.__dict__\<close>.
\<close>

theorem file_object_lacks_kind:
  "encode sorted_iter (obj (hd (parse_file (hd (example_xml ''a_8h'')))))
     = JObject [(''id'', JString ''a_8h''), (''name'', JString ''a.h''),
                (''file'', JString []), (''line'', JNull), (''desc'', JString [])]
   \<and> ''kind'' \<notin> set (json_keys
         (encode sorted_iter (obj (hd (parse_file (hd (example_xml ''a_8h'')))))))
   \<and> getattr (hd (parse_file (hd (example_xml ''a_8h'')))) ''kind'' = PyStr ''file''
   \<and> json_keys (encode sorted_iter (obj (parse_struct (hd (example_xml ''a_8h'')) False)))
     = [''id'', ''name'', ''is_union'', ''kind'', ''file'', ''line'', ''desc'']"
proof -
  have pf: "parse_file (hd (example_xml ''a_8h''))
      = [(File, [(''id'', PyStr ''a_8h''), (''name'', PyStr ''a.h''),
                 (''file'', PyStr []), (''line'', PyNone), (''desc'', PyStr [])])]"
    by (simp add: example_xml_def parse_file_def parse_file_or_group_def parse_location_def
        Node_init_def setattr_def parse_description_def)
  have ps: "parse_struct (hd (example_xml ''a_8h'')) False
      = (Struct, [(''id'', PyStr ''a_8h''), (''name'', PyStr ''a.h''),
                  (''is_union'', PyBool False), (''kind'', PyStr ''struct''),
                  (''file'', PyStr []), (''line'', PyNone), (''desc'', PyStr [])])"
    by (simp add: example_xml_def parse_struct_def Struct_init_def parse_location_def
        Node_init_def setattr_def parse_description_def)
  show ?thesis
    by (simp add: pf ps obj_def getattr_def class_attr_def)
qed

end
